theory Spec2Isabelle
  imports Complex_Main "HOL-Library.Multiset"
begin

section \<open>Python and NumPy values used by backend/app.py\<close>

text \<open>
  The exceptions the service can meet. All of them derive from Python's \<open>Exception\<close>,
  so every \<open>except Exception\<close> clause of the source catches each of them.
\<close>

datatype py_exception =
  OSError | UnpicklingError | KeyError | IndexError | ValueError | TypeError

text \<open>
  A two-dimensional NumPy array of floats: its shape and its entries. Floating-point
  numbers are idealised as reals (no rounding, no NaN), which are linearly ordered;
  the entries outside the shape are never read.
\<close>

record ndarray =
  shape0 :: nat
  shape1 :: nat
  cell :: "nat \<Rightarrow> nat \<Rightarrow> real"

text \<open>Builds an array from its rows, for writing down concrete matrices.\<close>

definition of_rows :: "real list list \<Rightarrow> ndarray" where
  "of_rows rs =
     \<lparr>shape0 = length rs,
      shape1 = (case rs of [] \<Rightarrow> 0 | r # _ \<Rightarrow> length r),
      cell = (\<lambda>i j. rs ! i ! j)\<rparr>"

text \<open>
  \<open>a[i]\<close> for a Python integer \<open>i\<close>: a negative index counts from the end, an index
  out of range raises IndexError.
\<close>

definition np_getitem :: "ndarray \<Rightarrow> int \<Rightarrow> py_exception + real list" where
  "np_getitem a i =
     (let n = int (shape0 a); j = (if i < 0 then n + i else i)
      in if 0 \<le> j \<and> j < n then Inr (map (cell a (nat j)) [0..<shape1 a])
         else Inl IndexError)"

text \<open>
  \<open>v.dot(a)\<close> for a vector \<open>v\<close> and a matrix \<open>a\<close>: one entry per column of \<open>a\<close>;
  shapes that are not aligned raise ValueError.
\<close>

definition np_dot :: "real list \<Rightarrow> ndarray \<Rightarrow> py_exception + real list" where
  "np_dot v a =
     (if length v \<noteq> shape0 a then Inl ValueError
      else Inr (map (\<lambda>j. \<Sum>i\<leftarrow>[0..<shape0 a]. v ! i * cell a i j) [0..<shape1 a]))"

text \<open>
  \<open>np.argsort\<close> is a library routine whose default algorithm is not stable, so the
  recommenders take it as a parameter \<open>srt\<close>. Its contract: the result is a
  permutation of the positions of its argument that lists the values in ascending
  order. Nothing is said about the order of positions holding equal values.
\<close>

definition argsort_spec :: "(real list \<Rightarrow> nat list) \<Rightarrow> bool" where
  "argsort_spec srt \<longleftrightarrow>
     (\<forall>xs. mset (srt xs) = mset [0..<length xs] \<and> sorted (map (\<lambda>i. xs ! i) (srt xs)))"

text \<open>One routine that meets the contract: the stable ascending sort of the positions.\<close>

definition argsort_stable :: "real list \<Rightarrow> nat list" where
  "argsort_stable xs = sort_key (\<lambda>i. xs ! i) [0..<length xs]"

text \<open>
  Python slicing. A bound \<open>i\<close> of a slice of a sequence of length \<open>n\<close> is clamped to
  \<open>0..n\<close>, a negative bound counting from the end; \<open>xs[a:]\<close> and \<open>xs[a:b]\<close> follow,
  and \<open>xs[::-1]\<close> is \<open>rev xs\<close>.
\<close>

definition slice_index :: "nat \<Rightarrow> int \<Rightarrow> nat" where
  "slice_index n i = (if i < 0 then nat (int n + i) else min n (nat i))"

definition slice_from :: "'a list \<Rightarrow> int \<Rightarrow> 'a list" where
  "slice_from xs a = drop (slice_index (length xs) a) xs"

definition slice :: "'a list \<Rightarrow> int \<Rightarrow> int \<Rightarrow> 'a list" where
  "slice xs a b =
     drop (slice_index (length xs) a) (take (slice_index (length xs) b) xs)"

section \<open>The globals of the module\<close>

text \<open>
  The pickled CF mapping object is a dictionary. A key that may be missing is an
  optional field. \<open>users\<close> maps an index to a user id and is kept in insertion order,
  since inverting it depends on that order; \<open>items\<close> maps an index to an item id.
\<close>

record cf_mappers =
  users :: "(int \<times> string) list option"
  items :: "(nat \<rightharpoonup> string) option"
  user_id_to_index :: "(string \<rightharpoonup> int) option"

record cbf_mappers =
  item_id_to_index :: "(string \<rightharpoonup> int) option"
  index_to_item_id :: "(nat \<rightharpoonup> string) option"

text \<open>What the service prints, one constructor per \<open>print\<close> call of the source.\<close>

datatype log_line =
  Loading_From_Root
  | CF_Model_Loaded nat nat
  | CF_Load_Warning py_exception
  | CBF_Model_Loaded nat nat
  | CBF_Load_Warning py_exception
  | CF_Inference_Error string py_exception
  | CBF_Inference_Error string py_exception

text \<open>The five module-level globals, \<open>None\<close> until loaded, and the standard output.\<close>

record server_state =
  CF_USER_FACTORS :: "ndarray option"
  CF_ITEM_FACTORS :: "ndarray option"
  CF_MAPPERS :: "cf_mappers option"
  CBF_SIM_MATRIX :: "ndarray option"
  CBF_MAPPERS :: "cbf_mappers option"
  stdout :: "log_line list"

definition initial_state :: server_state where
  "initial_state =
     \<lparr>CF_USER_FACTORS = None, CF_ITEM_FACTORS = None, CF_MAPPERS = None,
      CBF_SIM_MATRIX = None, CBF_MAPPERS = None, stdout = []\<rparr>"

definition print :: "log_line \<Rightarrow> server_state \<Rightarrow> server_state" where
  "print l s = s\<lparr>stdout := stdout s @ [l]\<rparr>"

text \<open>The artifact store: every global that holds model data.\<close>

definition artifact_store ::
  "server_state \<Rightarrow>
   ndarray option \<times> ndarray option \<times> cf_mappers option \<times> ndarray option \<times> cbf_mappers option"
  where
  "artifact_store s =
     (CF_USER_FACTORS s, CF_ITEM_FACTORS s, CF_MAPPERS s, CBF_SIM_MATRIX s, CBF_MAPPERS s)"

section \<open>The artifact loader\<close>

text \<open>
  The five artifact files as the loader meets them: reading a file either raises
  (missing file, corrupt content) or yields its content.
\<close>

record artifact_files =
  cf_mappers_pkl :: "py_exception + cf_mappers"
  user_factors_npy :: "py_exception + ndarray"
  item_factors_npy :: "py_exception + ndarray"
  cbf_mappers_pkl :: "py_exception + cbf_mappers"
  cbf_similarity_matrix_npy :: "py_exception + ndarray"

text \<open>
  \<open>{v: k for k, v in d.items()}\<close>: the entries are visited in order and a later entry
  overwrites an earlier one with the same value.
\<close>

definition invert_dict :: "(int \<times> string) list \<Rightarrow> (string \<rightharpoonup> int)" where
  "invert_dict d = fold (\<lambda>(k, v) m. m(v \<mapsto> k)) d Map.empty"

text \<open>
  The body of the first \<open>try\<close> of \<open>load_all_artifacts\<close>. Each assignment to a global
  takes effect at once; when a later statement raises, the result carries the exception
  together with the state reached so far.
\<close>

definition load_cf_body ::
  "artifact_files \<Rightarrow> server_state \<Rightarrow> py_exception option \<times> server_state" where
  "load_cf_body fs s =
     (case cf_mappers_pkl fs of
        Inl e \<Rightarrow> (Some e, s)
      | Inr m \<Rightarrow>
          let s1 = s\<lparr>CF_MAPPERS := Some m\<rparr> in
          (case user_factors_npy fs of
             Inl e \<Rightarrow> (Some e, s1)
           | Inr uf \<Rightarrow>
               let s2 = s1\<lparr>CF_USER_FACTORS := Some uf\<rparr> in
               (case item_factors_npy fs of
                  Inl e \<Rightarrow> (Some e, s2)
                | Inr itf \<Rightarrow>
                    let s3 = s2\<lparr>CF_ITEM_FACTORS := Some itf\<rparr> in
                    (case users m of
                       None \<Rightarrow> (Some KeyError, s3)
                     | Some us \<Rightarrow>
                         let s4 = s3\<lparr>CF_MAPPERS :=
                                       Some (m\<lparr>user_id_to_index := Some (invert_dict us)\<rparr>)\<rparr>
                         in (None, print (CF_Model_Loaded (shape0 uf) (shape1 itf)) s4)))))"

text \<open>The body of the second \<open>try\<close>.\<close>

definition load_cbf_body ::
  "artifact_files \<Rightarrow> server_state \<Rightarrow> py_exception option \<times> server_state" where
  "load_cbf_body fs s =
     (case cbf_mappers_pkl fs of
        Inl e \<Rightarrow> (Some e, s)
      | Inr m \<Rightarrow>
          let s1 = s\<lparr>CBF_MAPPERS := Some m\<rparr> in
          (case cbf_similarity_matrix_npy fs of
             Inl e \<Rightarrow> (Some e, s1)
           | Inr sim \<Rightarrow>
               let s2 = s1\<lparr>CBF_SIM_MATRIX := Some sim\<rparr>
               in (None, print (CBF_Model_Loaded (shape0 sim) (shape1 sim)) s2)))"

text \<open>
  \<open>try: body  except Exception as e: print(warning e)\<close>. The handler catches every
  exception of the body, so the statement itself completes normally (\<open>Inr\<close>).
\<close>

definition try_except ::
  "py_exception option \<times> server_state \<Rightarrow> (py_exception \<Rightarrow> log_line) \<Rightarrow>
   py_exception + server_state" where
  "try_except r warning =
     (case r of (None, s) \<Rightarrow> Inr s | (Some e, s) \<Rightarrow> Inr (print (warning e) s))"

definition load_all_artifacts ::
  "artifact_files \<Rightarrow> server_state \<Rightarrow> py_exception + server_state" where
  "load_all_artifacts fs s =
     (let s0 = print Loading_From_Root s in
      case try_except (load_cf_body fs s0) CF_Load_Warning of
        Inl e \<Rightarrow> Inl e
      | Inr s1 \<Rightarrow> try_except (load_cbf_body fs s1) CBF_Load_Warning)"

section \<open>The two recommendation endpoints\<close>

text \<open>
  How a request ends when it does not return a response:
  \<open>NotReady\<close> is \<open>HTTPException(500, "... model not loaded.")\<close>,
  \<open>NotFound\<close> is \<open>HTTPException(404, ...)\<close>,
  \<open>InternalError\<close> is \<open>HTTPException(500, "Error during ... inference.")\<close>, and
  \<open>Uncaught e\<close> is an exception that leaves the handler outside its \<open>try\<close>.
\<close>

datatype failure = NotReady | NotFound | InternalError | Uncaught py_exception

text \<open>
  \<open>[d[i] for i in idxs]\<close> where \<open>d\<close> is the value of a dictionary key that may be
  missing: the key is looked up once per element, so an empty \<open>idxs\<close> never fails.
  An index that \<open>d\<close> does not hold raises as well (KeyError for a dictionary; a list
  raises IndexError, which the caller treats alike).
\<close>

fun lookup_each :: "(nat \<rightharpoonup> string) option \<Rightarrow> nat list \<Rightarrow> py_exception + string list" where
  "lookup_each d [] = Inr []"
| "lookup_each d (i # idxs) =
     (case d of
        None \<Rightarrow> Inl KeyError
      | Some m \<Rightarrow>
          (case m i of
             None \<Rightarrow> Inl KeyError
           | Some x \<Rightarrow>
               (case lookup_each d idxs of
                  Inl e \<Rightarrow> Inl e
                | Inr xs \<Rightarrow> Inr (x # xs))))"

text \<open>\<open>np.argsort(scores)[-k:][::-1]\<close>\<close>

definition cf_top_k_indices :: "(real list \<Rightarrow> nat list) \<Rightarrow> real list \<Rightarrow> int \<Rightarrow> nat list" where
  "cf_top_k_indices srt scores k = rev (slice_from (srt scores) (- k))"

text \<open>\<open>user_vector.dot(CF_ITEM_FACTORS)\<close>, where the global may still be \<open>None\<close>.\<close>

definition cf_scores :: "real list \<Rightarrow> ndarray option \<Rightarrow> py_exception + real list" where
  "cf_scores user_vector itf =
     (case itf of None \<Rightarrow> Inl TypeError | Some a \<Rightarrow> np_dot user_vector a)"

text \<open>The body of the \<open>try\<close> of \<open>get_cf_recommendations\<close>.\<close>

definition cf_inference ::
  "(real list \<Rightarrow> nat list) \<Rightarrow> server_state \<Rightarrow> ndarray \<Rightarrow> cf_mappers \<Rightarrow> int \<Rightarrow> int \<Rightarrow>
   py_exception + string list" where
  "cf_inference srt s uf m user_index k =
     (case np_getitem uf user_index of
        Inl e \<Rightarrow> Inl e
      | Inr user_vector \<Rightarrow>
          (case cf_scores user_vector (CF_ITEM_FACTORS s) of
             Inl e \<Rightarrow> Inl e
           | Inr scores \<Rightarrow> lookup_each (items m) (cf_top_k_indices srt scores k)))"

definition get_cf_recommendations ::
  "(real list \<Rightarrow> nat list) \<Rightarrow> server_state \<Rightarrow> string \<Rightarrow> int \<Rightarrow>
   (failure + string \<times> string list) \<times> server_state" where
  "get_cf_recommendations srt s user_id k =
     (case (CF_USER_FACTORS s, CF_MAPPERS s) of
        (Some uf, Some m) \<Rightarrow>
          (case user_id_to_index m of
             None \<Rightarrow> (Inl (Uncaught KeyError), s)
           | Some u2i \<Rightarrow>
               (case u2i user_id of
                  None \<Rightarrow> (Inl NotFound, s)
                | Some user_index \<Rightarrow>
                    (case cf_inference srt s uf m user_index k of
                       Inl e \<Rightarrow> (Inl InternalError, print (CF_Inference_Error user_id e) s)
                     | Inr recommendations \<Rightarrow> (Inr (user_id, recommendations), s))))
      | _ \<Rightarrow> (Inl NotReady, s))"

text \<open>\<open>np.argsort(scores)[::-1][1 : k + 1]\<close>\<close>

definition cbf_top_indices :: "(real list \<Rightarrow> nat list) \<Rightarrow> real list \<Rightarrow> int \<Rightarrow> nat list" where
  "cbf_top_indices srt scores k = slice (rev (srt scores)) 1 (k + 1)"

text \<open>The body of the \<open>try\<close> of \<open>get_cbf_recommendations\<close>.\<close>

definition cbf_inference ::
  "(real list \<Rightarrow> nat list) \<Rightarrow> ndarray \<Rightarrow> cbf_mappers \<Rightarrow> int \<Rightarrow> int \<Rightarrow>
   py_exception + string list" where
  "cbf_inference srt sim m item_index k =
     (case np_getitem sim item_index of
        Inl e \<Rightarrow> Inl e
      | Inr scores \<Rightarrow> lookup_each (index_to_item_id m) (cbf_top_indices srt scores k))"

definition get_cbf_recommendations ::
  "(real list \<Rightarrow> nat list) \<Rightarrow> server_state \<Rightarrow> string \<Rightarrow> int \<Rightarrow>
   (failure + string \<times> string list) \<times> server_state" where
  "get_cbf_recommendations srt s item_id k =
     (case (CBF_SIM_MATRIX s, CBF_MAPPERS s) of
        (Some sim, Some m) \<Rightarrow>
          (case item_id_to_index m of
             None \<Rightarrow> (Inl (Uncaught KeyError), s)
           | Some i2i \<Rightarrow>
               (case i2i item_id of
                  None \<Rightarrow> (Inl NotFound, s)
                | Some item_index \<Rightarrow>
                    (case cbf_inference srt sim m item_index k of
                       Inl e \<Rightarrow> (Inl InternalError, print (CBF_Inference_Error item_id e) s)
                     | Inr recommendations \<Rightarrow> (Inr (item_id, recommendations), s))))
      | _ \<Rightarrow> (Inl NotReady, s))"

text \<open>A request to either endpoint, and the service handling a sequence of requests.\<close>

datatype request = CF_Request string int | CBF_Request string int

fun handle ::
  "(real list \<Rightarrow> nat list) \<Rightarrow> server_state \<Rightarrow> request \<Rightarrow>
   (failure + string \<times> string list) \<times> server_state" where
  "handle srt s (CF_Request user_id k) = get_cf_recommendations srt s user_id k"
| "handle srt s (CBF_Request item_id k) = get_cbf_recommendations srt s item_id k"

fun serve :: "(real list \<Rightarrow> nat list) \<Rightarrow> server_state \<Rightarrow> request list \<Rightarrow> server_state" where
  "serve srt s [] = s"
| "serve srt s (r # rs) = serve srt (snd (handle srt s r)) rs"

section \<open>The concrete scenario of the specification\<close>

text \<open>
  Two users, three items, two latent factors: the matrices of the specification's
  concrete scenarios with the ids \<open>u0, u1\<close> and \<open>item0, item1, item2\<close>.
\<close>

definition scenario_cf_mappers :: cf_mappers where
  "scenario_cf_mappers =
     \<lparr>users = Some [(0, ''u0''), (1, ''u1'')],
      items = Some [0 \<mapsto> ''item0'', 1 \<mapsto> ''item1'', 2 \<mapsto> ''item2''],
      user_id_to_index = None\<rparr>"

definition scenario_cbf_mappers :: cbf_mappers where
  "scenario_cbf_mappers =
     \<lparr>item_id_to_index = Some [''item0'' \<mapsto> 0, ''item1'' \<mapsto> 1, ''item2'' \<mapsto> 2],
      index_to_item_id = Some [0 \<mapsto> ''item0'', 1 \<mapsto> ''item1'', 2 \<mapsto> ''item2'']\<rparr>"

definition scenario_user_factors :: ndarray where
  "scenario_user_factors = of_rows [[1, 0], [0, 1]]"

definition scenario_item_factors :: ndarray where
  "scenario_item_factors = of_rows [[2, 0, 1], [0, 3, 1]]"

definition scenario_similarity :: ndarray where
  "scenario_similarity = of_rows [[1, 8 / 10, 1 / 10], [8 / 10, 1, 3 / 10], [1 / 10, 3 / 10, 1]]"

definition scenario_files :: artifact_files where
  "scenario_files =
     \<lparr>cf_mappers_pkl = Inr scenario_cf_mappers,
      user_factors_npy = Inr scenario_user_factors,
      item_factors_npy = Inr scenario_item_factors,
      cbf_mappers_pkl = Inr scenario_cbf_mappers,
      cbf_similarity_matrix_npy = Inr scenario_similarity\<rparr>"

text \<open>The state of the module once it has loaded the scenario's files.\<close>

definition scenario_state :: server_state where
  "scenario_state =
     \<lparr>CF_USER_FACTORS = Some scenario_user_factors,
      CF_ITEM_FACTORS = Some scenario_item_factors,
      CF_MAPPERS = Some (scenario_cf_mappers
        \<lparr>user_id_to_index := Some (invert_dict [(0, ''u0''), (1, ''u1'')])\<rparr>),
      CBF_SIM_MATRIX = Some scenario_similarity,
      CBF_MAPPERS = Some scenario_cbf_mappers,
      stdout = [Loading_From_Root, CF_Model_Loaded 2 3, CBF_Model_Loaded 3 3]\<rparr>"

text \<open>The same files with \<open>user_factors.npy\<close> missing, and the state the loader reaches.\<close>

definition files_without_user_factors :: artifact_files where
  "files_without_user_factors = scenario_files\<lparr>user_factors_npy := Inl OSError\<rparr>"

definition state_without_user_factors :: server_state where
  "state_without_user_factors =
     \<lparr>CF_USER_FACTORS = None,
      CF_ITEM_FACTORS = None,
      CF_MAPPERS = Some scenario_cf_mappers,
      CBF_SIM_MATRIX = Some scenario_similarity,
      CBF_MAPPERS = Some scenario_cbf_mappers,
      stdout = [Loading_From_Root, CF_Load_Warning OSError, CBF_Model_Loaded 3 3]\<rparr>"

text \<open>The same files with \<open>item_factors.npy\<close> missing, and the state the loader reaches.\<close>

definition files_without_item_factors :: artifact_files where
  "files_without_item_factors = scenario_files\<lparr>item_factors_npy := Inl OSError\<rparr>"

definition state_without_item_factors :: server_state where
  "state_without_item_factors =
     \<lparr>CF_USER_FACTORS = Some scenario_user_factors,
      CF_ITEM_FACTORS = None,
      CF_MAPPERS = Some scenario_cf_mappers,
      CBF_SIM_MATRIX = Some scenario_similarity,
      CBF_MAPPERS = Some scenario_cbf_mappers,
      stdout = [Loading_From_Root, CF_Load_Warning OSError, CBF_Model_Loaded 3 3]\<rparr>"

text \<open>
  Two items that are as similar to each other as to themselves: a similarity row with a
  tie at its maximum.
\<close>

definition tied_state :: server_state where
  "tied_state =
     \<lparr>CF_USER_FACTORS = None, CF_ITEM_FACTORS = None, CF_MAPPERS = None,
      CBF_SIM_MATRIX = Some (of_rows [[1, 1], [1, 1]]),
      CBF_MAPPERS = Some
        \<lparr>item_id_to_index = Some [''item0'' \<mapsto> 0, ''item1'' \<mapsto> 1],
         index_to_item_id = Some [0 \<mapsto> ''item0'', 1 \<mapsto> ''item1'']\<rparr>,
      stdout = []\<rparr>"

text \<open>
  The scenario with a mapping object whose \<open>items\<close> gives the items 0 and 2 the same
  id: the files, and the state the loader reaches.
\<close>

definition duplicate_ids_mappers :: cf_mappers where
  "duplicate_ids_mappers =
     \<lparr>users = Some [(0, ''u0''), (1, ''u1'')],
      items = Some [0 \<mapsto> ''item0'', 1 \<mapsto> ''item1'', 2 \<mapsto> ''item0''],
      user_id_to_index = None\<rparr>"

definition duplicate_ids_files :: artifact_files where
  "duplicate_ids_files = scenario_files\<lparr>cf_mappers_pkl := Inr duplicate_ids_mappers\<rparr>"

definition duplicate_ids_state :: server_state where
  "duplicate_ids_state =
     \<lparr>CF_USER_FACTORS = Some scenario_user_factors,
      CF_ITEM_FACTORS = Some scenario_item_factors,
      CF_MAPPERS = Some (duplicate_ids_mappers
        \<lparr>user_id_to_index := Some (invert_dict [(0, ''u0''), (1, ''u1'')])\<rparr>),
      CBF_SIM_MATRIX = Some scenario_similarity,
      CBF_MAPPERS = Some scenario_cbf_mappers,
      stdout = [Loading_From_Root, CF_Model_Loaded 2 3, CBF_Model_Loaded 3 3]\<rparr>"

section \<open>Facts about the library routines\<close>

lemma argsort_stable_spec: "argsort_spec argsort_stable"
  by (simp add: argsort_spec_def argsort_stable_def)

lemma argsort_length: "argsort_spec srt \<Longrightarrow> length (srt xs) = length xs"
  by (metis argsort_spec_def length_upt minus_nat.diff_0 size_mset)

lemma argsort_set: "argsort_spec srt \<Longrightarrow> set (srt xs) = {..<length xs}"
  by (metis argsort_spec_def atLeast_upt set_mset_mset)

lemma argsort_distinct: "argsort_spec srt \<Longrightarrow> distinct (srt xs)"
  by (metis argsort_spec_def distinct_upt mset_eq_imp_distinct_iff)

lemma argsort_sorted: "argsort_spec srt \<Longrightarrow> sorted (map (\<lambda>i. xs ! i) (srt xs))"
  by (simp add: argsort_spec_def)

lemma argsort_unique:
  assumes "argsort_spec srt" and "distinct xs"
  shows "srt xs = argsort_stable xs"
proof -
  have inj: "inj_on (\<lambda>i. xs ! i) (set [0..<length xs])"
    using assms(2) by (auto simp: inj_on_def nth_eq_iff_index_eq)
  have ms: "mset [0..<length xs] = mset (srt xs)"
    using assms(1) by (simp add: argsort_spec_def)
  have "sort_key (\<lambda>i. xs ! i) [0..<length xs] = srt xs"
    by (rule sort_key_inj_key_eq [OF ms inj argsort_sorted [OF assms(1)]])
  then show ?thesis by (simp add: argsort_stable_def)
qed

lemma np_getitem_length: "np_getitem a i = Inr v \<Longrightarrow> length v = shape1 a"
  by (auto simp: np_getitem_def Let_def split: if_splits)

lemma np_dot_length: "np_dot v a = Inr scores \<Longrightarrow> length scores = shape1 a"
  by (auto simp: np_dot_def split: if_splits)

lemma np_getitem_in_range:
  "- int (shape0 a) \<le> i \<Longrightarrow> i < int (shape0 a) \<Longrightarrow> \<exists>v. np_getitem a i = Inr v"
  by (auto simp: np_getitem_def Let_def)

lemma cf_top_k_indices_positive:
  "0 < k \<Longrightarrow> cf_top_k_indices srt scores k =
     rev (drop (length (srt scores) - nat k) (srt scores))"
  by (simp add: cf_top_k_indices_def slice_from_def slice_index_def nat_diff_distrib')

lemma cf_top_k_indices_zero: "cf_top_k_indices srt scores 0 = rev (srt scores)"
  by (simp add: cf_top_k_indices_def slice_from_def slice_index_def)

lemma slice_after_first:
  "0 \<le> k \<Longrightarrow> slice xs 1 (k + 1) = take (nat k) (drop 1 xs)"
proof (cases xs)
  case Nil
  then show ?thesis by (simp add: slice_def)
next
  case (Cons x ys)
  assume "0 \<le> k"
  then have "nat (k + 1) = Suc (nat k)" by simp
  then show ?thesis using Cons by (simp add: slice_def slice_index_def min_def)
qed

lemma cbf_top_indices_positive:
  "0 < k \<Longrightarrow> cbf_top_indices srt scores k = take (nat k) (drop 1 (rev (srt scores)))"
  by (simp add: cbf_top_indices_def slice_after_first)

lemma sorted_desc_rev_drop:
  "sorted (map f xs) \<Longrightarrow> sorted_wrt (\<lambda>a b. b \<le> a) (map f (rev (drop n xs)))"
proof -
  assume "sorted (map f xs)"
  then have "sorted (drop n (map f xs))" by (rule sorted_wrt_drop)
  then have "sorted (map f (drop n xs))" by (simp add: drop_map)
  then show ?thesis by (simp add: rev_map [symmetric] sorted_wrt_rev)
qed

lemma sorted_desc_sublist:
  "sorted_wrt (\<lambda>a b. b \<le> a) (map f xs) \<Longrightarrow>
   sorted_wrt (\<lambda>a b. b \<le> a) (map f (take n (drop m xs)))"
  by (metis drop_map sorted_wrt_drop sorted_wrt_take take_map)

lemma sorted_split_le:
  assumes "sorted (map f xs)" and "a \<in> set (take n xs)" and "b \<in> set (drop n xs)"
  shows "f a \<le> f b"
proof -
  have "sorted (map f (take n xs) @ map f (drop n xs))"
    using assms(1) by (simp add: map_append [symmetric])
  then show ?thesis using assms(2,3) by (auto simp: sorted_append)
qed

section \<open>Facts about the handlers\<close>

lemma lookup_each_total:
  "\<forall>i \<in> set idxs. m i \<noteq> None \<Longrightarrow> lookup_each (Some m) idxs = Inr (map (\<lambda>i. the (m i)) idxs)"
  by (induction idxs) auto

lemma cf_store_unchanged:
  "artifact_store (snd (get_cf_recommendations srt s user_id k)) = artifact_store s"
  by (simp add: get_cf_recommendations_def artifact_store_def print_def
      split: option.splits sum.splits)

lemma cbf_store_unchanged:
  "artifact_store (snd (get_cbf_recommendations srt s item_id k)) = artifact_store s"
  by (simp add: get_cbf_recommendations_def artifact_store_def print_def
      split: option.splits sum.splits)

lemma cf_depends_on_store:
  "artifact_store s = artifact_store s' \<Longrightarrow>
   fst (get_cf_recommendations srt s user_id k) = fst (get_cf_recommendations srt s' user_id k)"
  by (simp add: get_cf_recommendations_def artifact_store_def cf_inference_def
      split: option.splits sum.splits)

lemma cbf_depends_on_store:
  "artifact_store s = artifact_store s' \<Longrightarrow>
   fst (get_cbf_recommendations srt s item_id k) = fst (get_cbf_recommendations srt s' item_id k)"
  by (simp add: get_cbf_recommendations_def artifact_store_def
      split: option.splits sum.splits)

lemma handle_store_unchanged: "artifact_store (snd (handle srt s r)) = artifact_store s"
  by (cases r) (simp_all add: cf_store_unchanged cbf_store_unchanged)

lemma serve_store_unchanged: "artifact_store (serve srt s rs) = artifact_store s"
  by (induction rs arbitrary: s) (simp_all add: handle_store_unchanged)

lemma lookup_each_ran:
  "\<forall>i \<in> set idxs. m i \<noteq> None \<Longrightarrow> set (map (\<lambda>i. the (m i)) idxs) \<subseteq> ran m"
  by (auto simp: ran_def)

lemma distinct_lookup:
  assumes "distinct idxs" and "set idxs \<subseteq> A" and "\<forall>i \<in> A. m i \<noteq> None" and "inj_on m A"
  shows "distinct (map (\<lambda>i. the (m i)) idxs)"
proof -
  have "inj_on (\<lambda>i. the (m i)) (set idxs)"
  proof (rule inj_onI)
    fix a b
    assume ab: "a \<in> set idxs" "b \<in> set idxs" "the (m a) = the (m b)"
    then have "m a = m b" using assms(2,3) by (metis option.expand subsetD)
    then show "a = b" using ab assms(2,4) by (meson inj_onD subsetD)
  qed
  then show ?thesis using assms(1) by (simp add: distinct_map)
qed

lemma cf_inference_success:
  assumes "CF_ITEM_FACTORS s = Some itf" and "items m = Some it"
    and "np_getitem uf user_index = Inr user_vector"
    and "np_dot user_vector itf = Inr scores"
    and "\<forall>i \<in> set (cf_top_k_indices srt scores k). it i \<noteq> None"
  shows "cf_inference srt s uf m user_index k =
           Inr (map (\<lambda>i. the (it i)) (cf_top_k_indices srt scores k))"
  using assms by (simp add: cf_inference_def cf_scores_def lookup_each_total)

lemma get_cf_success:
  assumes "CF_USER_FACTORS s = Some uf" and "CF_MAPPERS s = Some m"
    and "user_id_to_index m = Some u2i" and "u2i user_id = Some user_index"
    and "cf_inference srt s uf m user_index k = Inr recs"
  shows "get_cf_recommendations srt s user_id k = (Inr (user_id, recs), s)"
  using assms by (simp add: get_cf_recommendations_def)

lemma cf_top_k_indices_subset:
  "argsort_spec srt \<Longrightarrow> set (cf_top_k_indices srt scores k) \<subseteq> {..<length scores}"
  using set_drop_subset [of _ "srt scores"]
  by (auto simp: cf_top_k_indices_def slice_from_def argsort_set [symmetric])

lemma cf_top_k_indices_distinct:
  "argsort_spec srt \<Longrightarrow> distinct (cf_top_k_indices srt scores k)"
  by (simp add: cf_top_k_indices_def slice_from_def argsort_distinct)

lemma cbf_inference_success:
  assumes "index_to_item_id m = Some it"
    and "np_getitem sim item_index = Inr scores"
    and "\<forall>i \<in> set (cbf_top_indices srt scores k). it i \<noteq> None"
  shows "cbf_inference srt sim m item_index k =
           Inr (map (\<lambda>i. the (it i)) (cbf_top_indices srt scores k))"
  using assms by (simp add: cbf_inference_def lookup_each_total)

lemma get_cbf_success:
  assumes "CBF_SIM_MATRIX s = Some sim" and "CBF_MAPPERS s = Some m"
    and "item_id_to_index m = Some i2i" and "i2i item_id = Some item_index"
    and "cbf_inference srt sim m item_index k = Inr recs"
  shows "get_cbf_recommendations srt s item_id k = (Inr (item_id, recs), s)"
  using assms by (simp add: get_cbf_recommendations_def)

lemma cbf_top_indices_subset:
  "argsort_spec srt \<Longrightarrow> set (cbf_top_indices srt scores k) \<subseteq> {..<length scores}"
proof -
  assume srt: "argsort_spec srt"
  have "set (cbf_top_indices srt scores k) \<subseteq> set (rev (srt scores))"
    unfolding cbf_top_indices_def slice_def
    by (meson set_drop_subset set_take_subset subset_trans)
  then show ?thesis using srt by (simp add: argsort_set)
qed

lemma sorted_desc_rev: "sorted (map f xs) \<Longrightarrow> sorted_wrt (\<lambda>a b. b \<le> a) (map f (rev xs))"
  using sorted_desc_rev_drop [of f xs 0] by simp

section \<open>Facts about the scenario\<close>

lemmas scenario_defs =
  scenario_files_def scenario_cf_mappers_def scenario_cbf_mappers_def
  scenario_user_factors_def scenario_item_factors_def scenario_similarity_def

lemma upt2: "[0..<2] = [0, 1]"
  by (simp add: upt_rec)

lemma upt3: "[0..<3] = [0, 1, 2]"
  by (simp add: upt_rec)

lemma scenario_row: "np_getitem scenario_user_factors 0 = Inr [1, 0]"
  by (simp add: np_getitem_def scenario_user_factors_def of_rows_def)

lemma scenario_dot: "np_dot [1, 0] scenario_item_factors = Inr [2, 0, 1]"
  by (simp add: np_dot_def scenario_item_factors_def of_rows_def)

lemma argsort_stable_201: "argsort_stable [2, 0, 1] = [1, 2, 0]"
  by (simp add: argsort_stable_def upt3)

lemma scenario_known: "invert_dict [(0, ''u0''), (1, ''u1'')] ''u0'' = Some 0"
  by (simp add: invert_dict_def)

lemma scenario_cover:
  "\<forall>i<shape1 scenario_item_factors. [0 \<mapsto> ''item0'', 1 \<mapsto> ''item1'', 2 \<mapsto> ''item2''] i \<noteq> None"
  by (auto simp: scenario_item_factors_def of_rows_def)

lemma scenario_state_fields:
  "CF_USER_FACTORS scenario_state = Some scenario_user_factors"
  "CF_ITEM_FACTORS scenario_state = Some scenario_item_factors"
  "CF_MAPPERS scenario_state = Some (scenario_cf_mappers
     \<lparr>user_id_to_index := Some (invert_dict [(0, ''u0''), (1, ''u1'')])\<rparr>)"
  "CBF_SIM_MATRIX scenario_state = Some scenario_similarity"
  "CBF_MAPPERS scenario_state = Some scenario_cbf_mappers"
  by (simp_all add: scenario_state_def)

lemma scenario_cf_mappers_fields:
  "user_id_to_index (scenario_cf_mappers
     \<lparr>user_id_to_index := Some (invert_dict [(0, ''u0''), (1, ''u1'')])\<rparr>) =
   Some (invert_dict [(0, ''u0''), (1, ''u1'')])"
  "items (scenario_cf_mappers
     \<lparr>user_id_to_index := Some (invert_dict [(0, ''u0''), (1, ''u1'')])\<rparr>) =
   Some [0 \<mapsto> ''item0'', 1 \<mapsto> ''item1'', 2 \<mapsto> ''item2'']"
  by (simp_all add: scenario_cf_mappers_def)

lemma scenario_cbf_mappers_fields:
  "item_id_to_index scenario_cbf_mappers =
     Some [''item0'' \<mapsto> 0, ''item1'' \<mapsto> 1, ''item2'' \<mapsto> 2]"
  "index_to_item_id scenario_cbf_mappers =
     Some [0 \<mapsto> ''item0'', 1 \<mapsto> ''item1'', 2 \<mapsto> ''item2'']"
  by (simp_all add: scenario_cbf_mappers_def)

lemma scenario_sim_row:
  "np_getitem scenario_similarity 0 = Inr [1, 8 / 10, 1 / 10]"
  by (simp add: np_getitem_def scenario_similarity_def of_rows_def)

lemma scenario_sim_cover:
  "\<forall>i<shape1 scenario_similarity. [0 \<mapsto> ''item0'', 1 \<mapsto> ''item1'', 2 \<mapsto> ''item2''] i \<noteq> None"
  by (auto simp: scenario_similarity_def of_rows_def)

lemma argsort_stable_sim_row: "argsort_stable [1, 4 / 5, 1 / 10] = [2, 1, 0]"
  by (simp add: argsort_stable_def upt3)

lemma slice_1_2: "slice [a, b, c] 1 2 = [b]"
  by (simp add: slice_def slice_index_def)

section \<open>Facts about the loader\<close>

lemmas load_defs =
  load_all_artifacts_def try_except_def load_cf_body_def load_cbf_body_def
  initial_state_def print_def Let_def

lemma load_scenario: "load_all_artifacts scenario_files initial_state = Inr scenario_state"
  by (simp add: load_defs scenario_defs scenario_state_def of_rows_def)

lemma load_without_user_factors:
  "load_all_artifacts files_without_user_factors initial_state = Inr state_without_user_factors"
  by (simp add: load_defs scenario_defs files_without_user_factors_def
      state_without_user_factors_def of_rows_def)

lemma load_without_item_factors:
  "load_all_artifacts files_without_item_factors initial_state = Inr state_without_item_factors"
  by (simp add: load_defs scenario_defs files_without_item_factors_def
      state_without_item_factors_def of_rows_def)

lemma load_returns: "\<exists>s'. load_all_artifacts fs s = Inr s'"
  by (simp add: load_all_artifacts_def try_except_def Let_def split: prod.splits option.splits)

lemma cf_not_ready_after_early_failure:
  assumes "load_all_artifacts fs initial_state = Inr s'"
    and "isl (cf_mappers_pkl fs) \<or> isl (user_factors_npy fs)"
  shows "get_cf_recommendations srt s' user_id k = (Inl NotReady, s')"
  using assms
  by (auto simp: load_defs get_cf_recommendations_def isl_def split: sum.splits option.splits)

lemma cbf_load_independent:
  assumes "load_all_artifacts fs initial_state = Inr s"
    and "load_all_artifacts fs' initial_state = Inr s'"
    and "cbf_mappers_pkl fs = cbf_mappers_pkl fs'"
    and "cbf_similarity_matrix_npy fs = cbf_similarity_matrix_npy fs'"
  shows "CBF_SIM_MATRIX s = CBF_SIM_MATRIX s' \<and> CBF_MAPPERS s = CBF_MAPPERS s'"
  using assms
  by (auto simp: load_defs split: sum.splits option.splits)

lemma load_duplicate_ids:
  "load_all_artifacts duplicate_ids_files initial_state = Inr duplicate_ids_state"
  by (simp add: load_defs scenario_defs duplicate_ids_files_def duplicate_ids_mappers_def
      duplicate_ids_state_def of_rows_def)

lemma cf_top_k_indices_stable_201: "cf_top_k_indices argsort_stable [2, 0, 1] 2 = [0, 2]"
  by (simp add: cf_top_k_indices_def slice_from_def slice_index_def argsort_stable_201)

section \<open>Collaborative filtering: the top-K result\<close>

text \<open>
  Claim C1 as stated fails on the ids: nothing makes the index-to-item-id mapping
  injective. Where the items 0 and 2 carry the same id, user \<open>u0\<close> with \<open>k = 2\<close> is
  answered with that id twice.
\<close>

theorem cf_duplicate_ids_counterexample:
  "load_all_artifacts duplicate_ids_files initial_state = Inr duplicate_ids_state
   \<and> get_cf_recommendations argsort_stable duplicate_ids_state ''u0'' 2 =
       (Inr (''u0'', [''item0'', ''item0'']), duplicate_ids_state)
   \<and> \<not> distinct [''item0'', ''item0'']"
proof -
  have "cf_inference argsort_stable duplicate_ids_state scenario_user_factors
          (duplicate_ids_mappers
             \<lparr>user_id_to_index := Some (invert_dict [(0, ''u0''), (1, ''u1'')])\<rparr>) 0 2 =
        Inr [''item0'', ''item0'']"
    by (simp add: cf_inference_def cf_scores_def scenario_row scenario_dot
        cf_top_k_indices_stable_201 duplicate_ids_state_def duplicate_ids_mappers_def)
  then have "get_cf_recommendations argsort_stable duplicate_ids_state ''u0'' 2 =
       (Inr (''u0'', [''item0'', ''item0'']), duplicate_ids_state)"
    by (simp add: get_cf_recommendations_def duplicate_ids_state_def
        duplicate_ids_mappers_def scenario_known)
  then show ?thesis using load_duplicate_ids by simp
qed

text \<open>
  Claim C1, amended. Let the CF bundle be loaded, the user id known, its row index
  within the user-factor matrix, the factor shapes aligned and every item index mapped
  to an id, and let \<open>k\<close> be positive. Then, for every \<open>argsort\<close> meeting its contract,
  the CF endpoint returns the ids of the indices \<open>np.argsort(scores)[-k:][::-1]\<close>:
  exactly \<open>min k num_items\<close> of them, each in the range of the index-to-item-id
  mapping, the indices pairwise distinct, in order of non-increasing score, no index
  left out scoring above a returned one, and all items when \<open>k\<close> is at least
  \<open>num_items\<close>. The ids are free of duplicates when the mapping is injective on the
  item indices.
\<close>

theorem cf_recommend_top_k:
  assumes srt: "argsort_spec srt"
    and uf: "CF_USER_FACTORS s = Some uf"
    and itf: "CF_ITEM_FACTORS s = Some itf"
    and m: "CF_MAPPERS s = Some m"
    and u2i: "user_id_to_index m = Some u2i"
    and known: "u2i user_id = Some user_index"
    and it: "items m = Some it"
    and cover: "\<forall>i<shape1 itf. it i \<noteq> None"
    and row: "np_getitem uf user_index = Inr user_vector"
    and dot: "np_dot user_vector itf = Inr scores"
    and k: "0 < k"
  shows "get_cf_recommendations srt s user_id k =
           (Inr (user_id, map (\<lambda>i. the (it i)) (cf_top_k_indices srt scores k)), s)
       \<and> length (map (\<lambda>i. the (it i)) (cf_top_k_indices srt scores k)) = min (nat k) (shape1 itf)
       \<and> set (map (\<lambda>i. the (it i)) (cf_top_k_indices srt scores k)) \<subseteq> ran it
       \<and> distinct (cf_top_k_indices srt scores k)
       \<and> (inj_on it {..<shape1 itf} \<longrightarrow>
            distinct (map (\<lambda>i. the (it i)) (cf_top_k_indices srt scores k)))
       \<and> sorted_wrt (\<lambda>a b. b \<le> a) (map (\<lambda>i. scores ! i) (cf_top_k_indices srt scores k))
       \<and> (\<forall>i<shape1 itf. \<forall>j \<in> set (cf_top_k_indices srt scores k).
            i \<notin> set (cf_top_k_indices srt scores k) \<longrightarrow> scores ! i \<le> scores ! j)
       \<and> (int (shape1 itf) \<le> k \<longrightarrow> set (cf_top_k_indices srt scores k) = {..<shape1 itf})"
proof -
  let ?idxs = "cf_top_k_indices srt scores k"
  let ?n = "shape1 itf"
  have n: "length scores = ?n" using dot by (rule np_dot_length)
  have len: "length (srt scores) = ?n" using srt n by (simp add: argsort_length)
  have idxs: "?idxs = rev (drop (?n - nat k) (srt scores))"
    using k len by (simp add: cf_top_k_indices_positive)
  have sub: "set ?idxs \<subseteq> {..<?n}"
    using cf_top_k_indices_subset [OF srt, of scores k] n by simp
  have dist: "distinct ?idxs" using srt by (rule cf_top_k_indices_distinct)
  have def: "\<forall>i \<in> set ?idxs. it i \<noteq> None" using sub cover by auto
  have c1: "get_cf_recommendations srt s user_id k =
              (Inr (user_id, map (\<lambda>i. the (it i)) ?idxs), s)"
    by (rule get_cf_success [OF uf m u2i known cf_inference_success [OF itf it row dot def]])
  have c2: "length (map (\<lambda>i. the (it i)) ?idxs) = min (nat k) ?n"
    using len by (simp add: idxs)
  have c3: "set (map (\<lambda>i. the (it i)) ?idxs) \<subseteq> ran it"
    using def by (rule lookup_each_ran)
  have c5: "inj_on it {..<?n} \<longrightarrow> distinct (map (\<lambda>i. the (it i)) ?idxs)"
  proof
    assume "inj_on it {..<?n}"
    moreover have "\<forall>i \<in> {..<?n}. it i \<noteq> None" using cover by simp
    ultimately show "distinct (map (\<lambda>i. the (it i)) ?idxs)"
      using distinct_lookup [OF dist sub] by blast
  qed
  have c6: "sorted_wrt (\<lambda>a b. b \<le> a) (map (\<lambda>i. scores ! i) ?idxs)"
    unfolding idxs using argsort_sorted [OF srt] by (rule sorted_desc_rev_drop)
  have c7: "\<forall>i<?n. \<forall>j \<in> set ?idxs. i \<notin> set ?idxs \<longrightarrow> scores ! i \<le> scores ! j"
  proof (intro allI impI ballI)
    fix i j
    assume i: "i < ?n" and j: "j \<in> set ?idxs" and out: "i \<notin> set ?idxs"
    have "i \<in> set (srt scores)" using i n srt by (simp add: argsort_set)
    then have "i \<in> set (take (?n - nat k) (srt scores) @ drop (?n - nat k) (srt scores))"
      by simp
    then have "i \<in> set (take (?n - nat k) (srt scores))"
      using out unfolding idxs set_append by simp
    moreover have "j \<in> set (drop (?n - nat k) (srt scores))" using j by (simp add: idxs)
    ultimately show "scores ! i \<le> scores ! j"
      using argsort_sorted [OF srt, of scores] by (rule sorted_split_le [rotated])
  qed
  have c8: "int ?n \<le> k \<longrightarrow> set ?idxs = {..<?n}"
    using srt n by (auto simp: idxs argsort_set)
  from c1 c2 c3 dist c5 c6 c7 c8 show ?thesis by blast
qed

text \<open>The theorem at the scenario: user \<open>u0\<close>, \<open>k = 2\<close>, the stable \<open>argsort\<close>.\<close>

theorem cf_recommend_top_k_witness:
  "get_cf_recommendations argsort_stable scenario_state ''u0'' 2 =
     (Inr (''u0'', [''item0'', ''item2'']), scenario_state)
   \<and> length [''item0'', ''item2''] = min (nat 2) (shape1 scenario_item_factors)"
proof -
  have uf: "CF_USER_FACTORS scenario_state = Some scenario_user_factors"
    and itf: "CF_ITEM_FACTORS scenario_state = Some scenario_item_factors"
    and m: "CF_MAPPERS scenario_state = Some (scenario_cf_mappers
              \<lparr>user_id_to_index := Some (invert_dict [(0, ''u0''), (1, ''u1'')])\<rparr>)"
    by (simp_all add: scenario_state_def)
  have u2i: "user_id_to_index (scenario_cf_mappers
              \<lparr>user_id_to_index := Some (invert_dict [(0, ''u0''), (1, ''u1'')])\<rparr>) =
             Some (invert_dict [(0, ''u0''), (1, ''u1'')])"
    and it: "items (scenario_cf_mappers
              \<lparr>user_id_to_index := Some (invert_dict [(0, ''u0''), (1, ''u1'')])\<rparr>) =
             Some [0 \<mapsto> ''item0'', 1 \<mapsto> ''item1'', 2 \<mapsto> ''item2'']"
    by (simp_all add: scenario_cf_mappers_def)
  have k: "0 < (2::int)" by simp
  have idxs: "cf_top_k_indices argsort_stable [2, 0, 1] 2 = [0, 2]"
    by (simp add: cf_top_k_indices_def slice_from_def slice_index_def argsort_stable_201)
  from cf_recommend_top_k [OF argsort_stable_spec uf itf m u2i scenario_known it
      scenario_cover scenario_row scenario_dot k]
  show ?thesis by (simp add: idxs)
qed

text \<open>
  Claim C10. With \<open>k = 0\<close> the slice \<open>[-k:]\<close> is \<open>[0:]\<close>, the whole array: under the
  hypotheses of C1 without the positivity of \<open>k\<close>, the CF endpoint returns the ids of
  all \<open>num_items\<close> indices in descending order of score, a non-empty list as soon as
  there is an item.
\<close>

theorem cf_recommend_k_zero:
  assumes srt: "argsort_spec srt"
    and uf: "CF_USER_FACTORS s = Some uf"
    and itf: "CF_ITEM_FACTORS s = Some itf"
    and m: "CF_MAPPERS s = Some m"
    and u2i: "user_id_to_index m = Some u2i"
    and known: "u2i user_id = Some user_index"
    and it: "items m = Some it"
    and cover: "\<forall>i<shape1 itf. it i \<noteq> None"
    and row: "np_getitem uf user_index = Inr user_vector"
    and dot: "np_dot user_vector itf = Inr scores"
  shows "get_cf_recommendations srt s user_id 0 =
           (Inr (user_id, map (\<lambda>i. the (it i)) (rev (srt scores))), s)
       \<and> length (map (\<lambda>i. the (it i)) (rev (srt scores))) = shape1 itf
       \<and> set (rev (srt scores)) = {..<shape1 itf}
       \<and> (0 < shape1 itf \<longrightarrow> map (\<lambda>i. the (it i)) (rev (srt scores)) \<noteq> [])"
proof -
  have n: "length scores = shape1 itf" using dot by (rule np_dot_length)
  have len: "length (srt scores) = shape1 itf" using srt n by (simp add: argsort_length)
  have all: "set (rev (srt scores)) = {..<shape1 itf}" using srt n by (simp add: argsort_set)
  have def: "\<forall>i \<in> set (cf_top_k_indices srt scores 0). it i \<noteq> None"
    using all cover by (simp add: cf_top_k_indices_zero)
  have "get_cf_recommendations srt s user_id 0 =
          (Inr (user_id, map (\<lambda>i. the (it i)) (cf_top_k_indices srt scores 0)), s)"
    by (rule get_cf_success [OF uf m u2i known cf_inference_success [OF itf it row dot def]])
  then have c1: "get_cf_recommendations srt s user_id 0 =
          (Inr (user_id, map (\<lambda>i. the (it i)) (rev (srt scores))), s)"
    by (simp add: cf_top_k_indices_zero)
  have c2: "length (map (\<lambda>i. the (it i)) (rev (srt scores))) = shape1 itf"
    using len by simp
  have c4: "0 < shape1 itf \<longrightarrow> map (\<lambda>i. the (it i)) (rev (srt scores)) \<noteq> []"
    using len by auto
  from c1 c2 all c4 show ?thesis by blast
qed

text \<open>
  The theorem at the scenario: user \<open>u0\<close>, \<open>k = 0\<close>, all three items returned.
\<close>

theorem cf_recommend_k_zero_witness:
  "get_cf_recommendations argsort_stable scenario_state ''u0'' 0 =
     (Inr (''u0'', [''item0'', ''item2'', ''item1'']), scenario_state)
   \<and> length [''item0'', ''item2'', ''item1''] = shape1 scenario_item_factors"
proof -
  from cf_recommend_k_zero [OF argsort_stable_spec scenario_state_fields(1,2,3)
      scenario_cf_mappers_fields(1) scenario_known scenario_cf_mappers_fields(2)
      scenario_cover scenario_row scenario_dot]
  show ?thesis by (simp add: argsort_stable_201)
qed

text \<open>
  Claim C6. With the user factors \<open>[[1,0],[0,1]]\<close> and the item factors
  \<open>[[2,0,1],[0,3,1]]\<close>, the row of user index 0 is \<open>[1,0]\<close>, its scores are
  \<open>[2,0,1]\<close>, the selected indices for \<open>k = 2\<close> are \<open>[0,2]\<close>, and the endpoint returns
  the ids of the items 0 and 2 in that order, for every \<open>argsort\<close> meeting its contract.
\<close>

theorem cf_scenario:
  assumes srt: "argsort_spec srt"
    and uf: "CF_USER_FACTORS s = Some (of_rows [[1, 0], [0, 1]])"
    and itf: "CF_ITEM_FACTORS s = Some (of_rows [[2, 0, 1], [0, 3, 1]])"
    and m: "CF_MAPPERS s = Some m"
    and u2i: "user_id_to_index m = Some u2i"
    and known: "u2i user_id = Some 0"
    and it: "items m = Some it"
    and it0: "it 0 = Some item0"
    and it2: "it 2 = Some item2"
  shows "np_getitem (of_rows [[1, 0], [0, 1]]) 0 = Inr [1, 0]
       \<and> cf_scores [1, 0] (CF_ITEM_FACTORS s) = Inr [2, 0, 1]
       \<and> cf_top_k_indices srt [2, 0, 1] 2 = [0, 2]
       \<and> get_cf_recommendations srt s user_id 2 = (Inr (user_id, [item0, item2]), s)"
proof -
  have row: "np_getitem (of_rows [[1, 0], [0, 1]]) 0 = Inr [1, 0]"
    using scenario_row by (simp add: scenario_user_factors_def)
  have dot: "np_dot [1, 0] (of_rows [[2, 0, 1], [0, 3, 1]]) = Inr [2, 0, 1]"
    using scenario_dot by (simp add: scenario_item_factors_def)
  have scores: "cf_scores [1, 0] (CF_ITEM_FACTORS s) = Inr [2, 0, 1]"
    using dot by (simp add: cf_scores_def itf)
  have "srt [2, 0, 1] = argsort_stable [2, 0, 1]"
    using srt by (rule argsort_unique) simp
  then have asc: "srt [2, 0, 1] = [1, 2, 0]" by (simp add: argsort_stable_201)
  have idxs: "cf_top_k_indices srt [2, 0, 1] 2 = [0, 2]"
    by (simp add: cf_top_k_indices_def slice_from_def slice_index_def asc)
  have "cf_inference srt s (of_rows [[1, 0], [0, 1]]) m 0 2 = Inr [item0, item2]"
    by (simp add: cf_inference_def row scores idxs it it0 it2)
  then have "get_cf_recommendations srt s user_id 2 = (Inr (user_id, [item0, item2]), s)"
    by (rule get_cf_success [OF uf m u2i known])
  with row scores idxs show ?thesis by blast
qed

text \<open>
  The theorem at the scenario state with the stable \<open>argsort\<close>.
\<close>

theorem cf_scenario_witness:
  "get_cf_recommendations argsort_stable scenario_state ''u0'' 2 =
     (Inr (''u0'', [''item0'', ''item2'']), scenario_state)
   \<and> cf_scores [1, 0] (CF_ITEM_FACTORS scenario_state) = Inr [2, 0, 1]"
proof -
  have uf: "CF_USER_FACTORS scenario_state = Some (of_rows [[1, 0], [0, 1]])"
    and itf: "CF_ITEM_FACTORS scenario_state = Some (of_rows [[2, 0, 1], [0, 3, 1]])"
    by (simp_all add: scenario_state_def scenario_user_factors_def scenario_item_factors_def)
  have it0: "[0 \<mapsto> ''item0'', 1 \<mapsto> ''item1'', 2 \<mapsto> ''item2''] (0::nat) = Some ''item0''"
    and it2: "[0 \<mapsto> ''item0'', 1 \<mapsto> ''item1'', 2 \<mapsto> ''item2''] (2::nat) = Some ''item2''"
    by simp_all
  from cf_scenario [OF argsort_stable_spec uf itf scenario_state_fields(3)
      scenario_cf_mappers_fields(1) scenario_known scenario_cf_mappers_fields(2) it0 it2]
  show ?thesis by simp
qed

section \<open>Content-based filtering: the ranks after the first\<close>

text \<open>
  Claim C2. Let the CBF bundle be loaded, the item id known, its row index within
  the similarity matrix and every item index mapped to an id, and let \<open>k\<close> be positive.
  Then, for every \<open>argsort\<close> meeting its contract, the CBF endpoint returns the ids of
  the positions 1 to \<open>k\<close> of the descending order of the item's similarity row:
  exactly \<open>min k (num_items - 1)\<close> of them (none when there is no item), in order of
  non-increasing similarity. What is skipped is the index at position 0 of that order,
  whichever item it is.
\<close>

theorem cbf_recommend_ranks:
  assumes srt: "argsort_spec srt"
    and sim: "CBF_SIM_MATRIX s = Some sim"
    and m: "CBF_MAPPERS s = Some m"
    and i2i: "item_id_to_index m = Some i2i"
    and known: "i2i item_id = Some item_index"
    and it: "index_to_item_id m = Some it"
    and cover: "\<forall>i<shape1 sim. it i \<noteq> None"
    and row: "np_getitem sim item_index = Inr scores"
    and k: "0 < k"
  shows "get_cbf_recommendations srt s item_id k =
           (Inr (item_id, map (\<lambda>i. the (it i)) (cbf_top_indices srt scores k)), s)
       \<and> cbf_top_indices srt scores k = take (nat k) (drop 1 (rev (srt scores)))
       \<and> length (map (\<lambda>i. the (it i)) (cbf_top_indices srt scores k)) =
           min (nat k) (shape1 sim - 1)
       \<and> (\<forall>r<length (cbf_top_indices srt scores k).
            cbf_top_indices srt scores k ! r = rev (srt scores) ! (r + 1))
       \<and> distinct (rev (srt scores)) \<and> set (rev (srt scores)) = {..<shape1 sim}
       \<and> sorted_wrt (\<lambda>a b. b \<le> a) (map (\<lambda>i. scores ! i) (rev (srt scores)))
       \<and> sorted_wrt (\<lambda>a b. b \<le> a) (map (\<lambda>i. scores ! i) (cbf_top_indices srt scores k))
       \<and> (0 < shape1 sim \<longrightarrow> rev (srt scores) ! 0 \<notin> set (cbf_top_indices srt scores k))"
proof -
  let ?idxs = "cbf_top_indices srt scores k"
  let ?desc = "rev (srt scores)"
  let ?n = "shape1 sim"
  have n: "length scores = ?n" using row by (rule np_getitem_length)
  have len: "length ?desc = ?n" using srt n by (simp add: argsort_length)
  have idxs: "?idxs = take (nat k) (drop 1 ?desc)"
    using k by (rule cbf_top_indices_positive)
  have sub: "set ?idxs \<subseteq> {..<?n}"
    using cbf_top_indices_subset [OF srt, of scores k] n by simp
  have def: "\<forall>i \<in> set ?idxs. it i \<noteq> None" using sub cover by auto
  have c1: "get_cbf_recommendations srt s item_id k =
              (Inr (item_id, map (\<lambda>i. the (it i)) ?idxs), s)"
    by (rule get_cbf_success [OF sim m i2i known cbf_inference_success [OF it row def]])
  have c3: "length (map (\<lambda>i. the (it i)) ?idxs) = min (nat k) (?n - 1)"
    using len by (simp add: idxs min.commute)
  have c4: "\<forall>r<length ?idxs. ?idxs ! r = ?desc ! (r + 1)"
    unfolding idxs by (auto simp: nth_drop)
  have dist: "distinct ?desc" using srt by (simp add: argsort_distinct)
  have all: "set ?desc = {..<?n}" using srt n by (simp add: argsort_set)
  have desc: "sorted_wrt (\<lambda>a b. b \<le> a) (map (\<lambda>i. scores ! i) ?desc)"
    using argsort_sorted [OF srt] by (rule sorted_desc_rev)
  have c6: "sorted_wrt (\<lambda>a b. b \<le> a) (map (\<lambda>i. scores ! i) ?idxs)"
    unfolding idxs using desc by (rule sorted_desc_sublist)
  have c7: "0 < ?n \<longrightarrow> ?desc ! 0 \<notin> set ?idxs"
  proof
    assume pos: "0 < ?n"
    then obtain x xs where split: "?desc = x # xs" using len by (cases ?desc) auto
    then have "x \<notin> set xs" using dist by (metis distinct.simps(2))
    moreover have "set ?idxs \<subseteq> set xs"
      unfolding idxs split by (simp add: set_take_subset)
    ultimately show "?desc ! 0 \<notin> set ?idxs" using split by auto
  qed
  from c1 idxs c3 c4 dist all desc c6 c7 show ?thesis by blast
qed

text \<open>
  The theorem at the scenario: item \<open>item0\<close>, \<open>k = 2\<close>, the stable \<open>argsort\<close>.
\<close>

theorem cbf_recommend_ranks_witness:
  "get_cbf_recommendations argsort_stable scenario_state ''item0'' 2 =
     (Inr (''item0'', [''item1'', ''item2'']), scenario_state)
   \<and> length [''item1'', ''item2''] = min (nat 2) (shape1 scenario_similarity - 1)"
proof -
  have known: "[''item0'' \<mapsto> 0, ''item1'' \<mapsto> 1, ''item2'' \<mapsto> (2::int)] ''item0'' = Some 0"
    by simp
  have k: "0 < (2::int)" by simp
  have idxs: "cbf_top_indices argsort_stable [1, 4 / 5, 1 / 10] 2 = [1, 2]"
    by (simp add: cbf_top_indices_def slice_def slice_index_def argsort_stable_sim_row)
  from cbf_recommend_ranks [OF argsort_stable_spec scenario_state_fields(4,5)
      scenario_cbf_mappers_fields(1) known scenario_cbf_mappers_fields(2)
      scenario_sim_cover scenario_sim_row k]
  show ?thesis
    by (simp add: idxs argsort_stable_sim_row scenario_similarity_def of_rows_def)
qed

text \<open>
  The skip is by position: with a tie at the maximum of the row and the stable
  \<open>argsort\<close>, the query item itself is what the endpoint returns.
\<close>

lemma cbf_skip_is_positional:
  "get_cbf_recommendations argsort_stable tied_state ''item0'' 1 =
     (Inr (''item0'', [''item0'']), tied_state)"
  by (simp add: get_cbf_recommendations_def cbf_inference_def cbf_top_indices_def
      tied_state_def np_getitem_def of_rows_def argsort_stable_def upt2
      slice_def slice_index_def)

text \<open>
  Claim C7. With the similarity matrix
  \<open>[[1.0,0.8,0.1],[0.8,1.0,0.3],[0.1,0.3,1.0]]\<close>, the row of item index 0 in descending
  order is \<open>[0,1,2]\<close>, and for \<open>k = 1\<close> the endpoint returns exactly the id of item 1,
  for every \<open>argsort\<close> meeting its contract.
\<close>

theorem cbf_scenario:
  assumes srt: "argsort_spec srt"
    and sim: "CBF_SIM_MATRIX s =
                Some (of_rows [[1.0, 0.8, 0.1], [0.8, 1.0, 0.3], [0.1, 0.3, 1.0]])"
    and m: "CBF_MAPPERS s = Some m"
    and i2i: "item_id_to_index m = Some i2i"
    and known: "i2i item_id = Some 0"
    and it: "index_to_item_id m = Some it"
    and it1: "it 1 = Some item1"
  shows "np_getitem (of_rows [[1.0, 0.8, 0.1], [0.8, 1.0, 0.3], [0.1, 0.3, 1.0]]) 0 =
           Inr [1.0, 0.8, 0.1]
       \<and> rev (srt [1.0, 0.8, 0.1]) = [0, 1, 2]
       \<and> cbf_top_indices srt [1.0, 0.8, 0.1] 1 = [1]
       \<and> get_cbf_recommendations srt s item_id 1 = (Inr (item_id, [item1]), s)"
proof -
  have row: "np_getitem (of_rows [[1.0, 0.8, 0.1], [0.8, 1.0, 0.3], [0.1, 0.3, 1.0]]) 0 =
               Inr [1.0, 0.8, 0.1]"
    using scenario_sim_row by (simp add: scenario_similarity_def)
  have "srt [1, 8 / 10, 1 / 10] = argsort_stable [1, 8 / 10, 1 / 10]"
    using srt by (rule argsort_unique) simp
  then have asc: "srt [1, 8 / 10, 1 / 10] = [2, 1, 0]" by (simp add: argsort_stable_sim_row)
  then have desc: "rev (srt [1.0, 0.8, 0.1]) = [0, 1, 2]" by simp
  have idxs: "cbf_top_indices srt [1.0, 0.8, 0.1] 1 = [1]"
    using asc by (simp add: cbf_top_indices_def slice_1_2)
  have "cbf_inference srt (of_rows [[1.0, 0.8, 0.1], [0.8, 1.0, 0.3], [0.1, 0.3, 1.0]]) m 0 1 =
          Inr [item1]"
    using row idxs it1 by (simp add: cbf_inference_def it)
  then have "get_cbf_recommendations srt s item_id 1 = (Inr (item_id, [item1]), s)"
    by (rule get_cbf_success [OF sim m i2i known])
  with row desc idxs show ?thesis by blast
qed

text \<open>
  The theorem at the scenario state with the stable \<open>argsort\<close>.
\<close>

theorem cbf_scenario_witness:
  "get_cbf_recommendations argsort_stable scenario_state ''item0'' 1 =
     (Inr (''item0'', [''item1'']), scenario_state)"
proof -
  have sim: "CBF_SIM_MATRIX scenario_state =
               Some (of_rows [[1.0, 0.8, 0.1], [0.8, 1.0, 0.3], [0.1, 0.3, 1.0]])"
    by (simp add: scenario_state_def scenario_similarity_def)
  have known: "[''item0'' \<mapsto> 0, ''item1'' \<mapsto> 1, ''item2'' \<mapsto> (2::int)] ''item0'' = Some 0"
    by simp
  have it1: "[0 \<mapsto> ''item0'', 1 \<mapsto> ''item1'', 2 \<mapsto> ''item2''] (1::nat) = Some ''item1''"
    by simp
  from cbf_scenario [OF argsort_stable_spec sim scenario_state_fields(5)
      scenario_cbf_mappers_fields(1) known scenario_cbf_mappers_fields(2) it1]
  show ?thesis by simp
qed

section \<open>Unknown ids\<close>

text \<open>
  Claim C5. When the CF bundle is loaded and the user id is not a key of
  \<open>user_id_to_index\<close>, the CF endpoint fails with \<open>NotFound\<close>; when the CBF bundle is
  loaded and the item id is not a key of \<open>item_id_to_index\<close>, the CBF endpoint fails
  with \<open>NotFound\<close>. In both cases nothing is printed: no internal error is raised.
\<close>

theorem unknown_id_not_found:
  "(CF_USER_FACTORS s = Some uf \<and> CF_MAPPERS s = Some m \<and> user_id_to_index m = Some u2i
      \<and> u2i user_id = None
     \<longrightarrow> get_cf_recommendations srt s user_id k = (Inl NotFound, s))
   \<and> (CBF_SIM_MATRIX s = Some sim \<and> CBF_MAPPERS s = Some m' \<and> item_id_to_index m' = Some i2i
      \<and> i2i item_id = None
     \<longrightarrow> get_cbf_recommendations srt s item_id k = (Inl NotFound, s))"
  by (simp add: get_cf_recommendations_def get_cbf_recommendations_def)

text \<open>
  The theorem at the scenario state, for the ids \<open>u7\<close> and \<open>item7\<close>.
\<close>

theorem unknown_id_not_found_witness:
  "get_cf_recommendations argsort_stable scenario_state ''u7'' 3 = (Inl NotFound, scenario_state)
   \<and> get_cbf_recommendations argsort_stable scenario_state ''item7'' 3 =
       (Inl NotFound, scenario_state)"
proof -
  have cf: "invert_dict [(0, ''u0''), (1, ''u1'')] ''u7'' = None"
    by (simp add: invert_dict_def)
  have cbf: "[''item0'' \<mapsto> 0, ''item1'' \<mapsto> 1, ''item2'' \<mapsto> (2::int)] ''item7'' = None"
    by simp
  from unknown_id_not_found [of scenario_state scenario_user_factors
      "scenario_cf_mappers\<lparr>user_id_to_index := Some (invert_dict [(0, ''u0''), (1, ''u1'')])\<rparr>"
      "invert_dict [(0, ''u0''), (1, ''u1'')]" "''u7''" argsort_stable 3
      scenario_similarity scenario_cbf_mappers
      "[''item0'' \<mapsto> 0, ''item1'' \<mapsto> 1, ''item2'' \<mapsto> 2]" "''item7''"]
  show ?thesis
    using cf cbf
    by (simp add: scenario_state_fields scenario_cf_mappers_fields scenario_cbf_mappers_fields)
qed

section \<open>Load failures\<close>

text \<open>
  Claim C3, evaluated where \<open>item_factors.npy\<close> is missing and the other files are
  those of the scenario. The loader catches the exception with \<open>CF_MAPPERS\<close> and
  \<open>CF_USER_FACTORS\<close> already assigned. The guard of the CF endpoint tests only these
  two globals, so the request goes on, and the lookup of the key \<open>user_id_to_index\<close>,
  which the loader never stored, raises outside the \<open>try\<close>: the request does not fail
  with \<open>NotReady\<close>. The CBF endpoint answers as usual.
\<close>

theorem cf_load_failure_not_reported:
  "item_factors_npy files_without_item_factors = Inl OSError
   \<and> load_all_artifacts files_without_item_factors initial_state =
       Inr state_without_item_factors
   \<and> get_cf_recommendations srt state_without_item_factors ''u0'' 2 =
       (Inl (Uncaught KeyError), state_without_item_factors)
   \<and> get_cbf_recommendations argsort_stable state_without_item_factors ''item0'' 1 =
       (Inr (''item0'', [''item1'']), state_without_item_factors)"
proof -
  have "item_factors_npy files_without_item_factors = Inl OSError"
    by (simp add: files_without_item_factors_def)
  moreover have "get_cf_recommendations srt state_without_item_factors ''u0'' 2 =
       (Inl (Uncaught KeyError), state_without_item_factors)"
    by (simp add: get_cf_recommendations_def state_without_item_factors_def
        scenario_cf_mappers_def)
  moreover have
    "get_cbf_recommendations argsort_stable state_without_item_factors ''item0'' 1 =
       (Inr (''item0'', [''item1'']), state_without_item_factors)"
    by (simp add: get_cbf_recommendations_def cbf_inference_def cbf_top_indices_def
        state_without_item_factors_def scenario_cbf_mappers_def scenario_sim_row
        argsort_stable_sim_row slice_1_2)
  ultimately show ?thesis using load_without_item_factors by blast
qed

text \<open>
  Claim C4 as stated fails where \<open>user_factors.npy\<close> is missing: the exception is
  raised during the load of the CF bundle, and \<open>CF_MAPPERS\<close>, assigned before it, keeps
  the unpickled mapping object.
\<close>

theorem load_partial_counterexample:
  "user_factors_npy files_without_user_factors = Inl OSError
   \<and> load_all_artifacts files_without_user_factors initial_state =
       Inr state_without_user_factors
   \<and> CF_MAPPERS state_without_user_factors = Some scenario_cf_mappers
   \<and> CF_MAPPERS state_without_user_factors \<noteq> None"
  using load_without_user_factors
  by (simp add: files_without_user_factors_def state_without_user_factors_def)

text \<open>
  Claim C4, amended. The loader, run on the initial state, never raises to its caller,
  whatever the files are. When a statement of a bundle's load raises, the globals of
  that bundle assigned before it hold the loaded values and the ones not yet assigned
  are \<open>None\<close>: all of them are \<open>None\<close> when the mapping file cannot be read, and the
  bundle is partially set when a later statement raises.
\<close>

theorem load_keeps_assigned_fields:
  "\<exists>s'. load_all_artifacts fs initial_state = Inr s'
    \<and> (\<forall>e. cf_mappers_pkl fs = Inl e \<longrightarrow>
          CF_MAPPERS s' = None \<and> CF_USER_FACTORS s' = None \<and> CF_ITEM_FACTORS s' = None)
    \<and> (\<forall>m e. cf_mappers_pkl fs = Inr m \<and> user_factors_npy fs = Inl e \<longrightarrow>
          CF_MAPPERS s' = Some m \<and> CF_USER_FACTORS s' = None \<and> CF_ITEM_FACTORS s' = None)
    \<and> (\<forall>m uf e. cf_mappers_pkl fs = Inr m \<and> user_factors_npy fs = Inr uf
            \<and> item_factors_npy fs = Inl e \<longrightarrow>
          CF_MAPPERS s' = Some m \<and> CF_USER_FACTORS s' = Some uf \<and> CF_ITEM_FACTORS s' = None)
    \<and> (\<forall>m uf itf. cf_mappers_pkl fs = Inr m \<and> user_factors_npy fs = Inr uf
            \<and> item_factors_npy fs = Inr itf \<and> users m = None \<longrightarrow>
          CF_MAPPERS s' = Some m \<and> CF_USER_FACTORS s' = Some uf
          \<and> CF_ITEM_FACTORS s' = Some itf)
    \<and> (\<forall>e. cbf_mappers_pkl fs = Inl e \<longrightarrow> CBF_MAPPERS s' = None \<and> CBF_SIM_MATRIX s' = None)
    \<and> (\<forall>m e. cbf_mappers_pkl fs = Inr m \<and> cbf_similarity_matrix_npy fs = Inl e \<longrightarrow>
          CBF_MAPPERS s' = Some m \<and> CBF_SIM_MATRIX s' = None)"
  by (auto simp: load_defs split: sum.splits option.splits)

text \<open>
  The theorem where \<open>user_factors.npy\<close> is missing.
\<close>

theorem load_keeps_assigned_fields_witness:
  "\<exists>s'. load_all_artifacts files_without_user_factors initial_state = Inr s'
     \<and> CF_MAPPERS s' = Some scenario_cf_mappers
     \<and> CF_USER_FACTORS s' = None \<and> CF_ITEM_FACTORS s' = None"
proof -
  have "cf_mappers_pkl files_without_user_factors = Inr scenario_cf_mappers
        \<and> user_factors_npy files_without_user_factors = Inl OSError"
    by (simp add: files_without_user_factors_def scenario_files_def)
  with load_keeps_assigned_fields [of files_without_user_factors]
  show ?thesis by blast
qed

section \<open>Requests and the artifact store\<close>

text \<open>
  Claim C9. Neither endpoint assigns a global: whatever a request returns, and also when
  it fails, the factor matrices, the similarity matrix and both mapping objects are the
  same after it as before it (only the standard output can grow). The same holds for
  any sequence of requests.
\<close>

theorem recommend_keeps_artifact_store:
  "artifact_store (snd (get_cf_recommendations srt s user_id k)) = artifact_store s
   \<and> artifact_store (snd (get_cbf_recommendations srt s item_id k)) = artifact_store s
   \<and> artifact_store (serve srt s rs) = artifact_store s"
  by (simp add: cf_store_unchanged cbf_store_unchanged serve_store_unchanged)

text \<open>
  Claim C8. A request's result is a function of its inputs and of the artifact store.
  So a call repeated after any sequence \<open>rs\<close> of requests to the service (in particular
  right after the same call) returns what the first call returned, for both endpoints.
\<close>

theorem recommend_repeatable:
  "fst (get_cf_recommendations srt (serve srt s rs) user_id k) =
     fst (get_cf_recommendations srt s user_id k)
   \<and> fst (get_cf_recommendations srt (snd (get_cf_recommendations srt s user_id k)) user_id k) =
     fst (get_cf_recommendations srt s user_id k)
   \<and> fst (get_cbf_recommendations srt (serve srt s rs) item_id k) =
     fst (get_cbf_recommendations srt s item_id k)
   \<and> fst (get_cbf_recommendations srt (snd (get_cbf_recommendations srt s item_id k)) item_id k) =
     fst (get_cbf_recommendations srt s item_id k)"
proof -
  have "fst (get_cf_recommendations srt (serve srt s rs) user_id k) =
          fst (get_cf_recommendations srt s user_id k)"
    by (rule cf_depends_on_store [OF serve_store_unchanged])
  moreover have
    "fst (get_cf_recommendations srt (snd (get_cf_recommendations srt s user_id k)) user_id k) =
       fst (get_cf_recommendations srt s user_id k)"
    by (rule cf_depends_on_store [OF cf_store_unchanged])
  moreover have "fst (get_cbf_recommendations srt (serve srt s rs) item_id k) =
          fst (get_cbf_recommendations srt s item_id k)"
    by (rule cbf_depends_on_store [OF serve_store_unchanged])
  moreover have
    "fst (get_cbf_recommendations srt (snd (get_cbf_recommendations srt s item_id k)) item_id k) =
       fst (get_cbf_recommendations srt s item_id k)"
    by (rule cbf_depends_on_store [OF cbf_store_unchanged])
  ultimately show ?thesis by blast
qed

end
